theory Spec2Isabelle
  imports Main
begin

section \<open>The clinical-trial pipeline of airflow/dags/airflow_dag_clinical_trial.py\<close>

text \<open>
  The module registers one DAG, \<open>dag_clinical_trial\<close>, with three Python callables
  (\<open>extract\<close>, \<open>transform\<close>, \<open>load\<close>) wrapped as operators and chained by \<open>>>\<close>.
  The callables talk to the orchestrator only through the task instance \<open>ti\<close> they find
  in their keyword arguments (\<open>xcom_push\<close>, \<open>xcom_pull\<close>) and to the console through
  \<open>print\<close>. Both effects are made explicit below: a stage takes the world before it
  and returns the world after it, together with whether it returned or raised.
\<close>

subsection \<open>Values, errors and the world a stage runs in\<close>

text \<open>
  The payload that travels through the exchange store is opaque to the module (the
  training split handed out by the dataset library), so it is a type parameter \<open>'v\<close>.
  Python's \<open>None\<close> is a value of its own: it is what a read of the store gives back
  when nothing is found.
\<close>

datatype 'v pyval = PyNone | PyObj 'v

datatype py_error = KeyError string | LibraryError string

text \<open>
  One entry of the trace for every call a callable makes on the task instance or on the
  console, in program order: \<open>Push t k v\<close> for \<open>ti.xcom_push(k, v)\<close> made by task \<open>t\<close>,
  \<open>Pull t k\<close> for \<open>ti.xcom_pull(task_ids=t, key=k)\<close>, \<open>Print v\<close> for \<open>print(v)\<close>.
\<close>

datatype 'v event = Push string string "'v pyval" | Pull string string | Print "'v pyval"

record 'v world =
  xcom :: "(string \<times> string) \<rightharpoonup> 'v pyval"
  events :: "'v event list"

datatype 'v outcome = Returned (world_of: "'v world") | Raised py_error (world_of: "'v world")

record task_instance =
  ti_task_id :: string

subsection \<open>The orchestrator's exchange channel and the console\<close>

text \<open>
  \<open>ti.xcom_push(key, value)\<close> stores the value under the pushing task's id and the key,
  replacing what was there. \<open>ti.xcom_pull(task_ids=t, key=k)\<close> is called by the module
  without a \<open>default\<close> argument, so the orchestrator's own default applies: when nothing
  is stored under \<open>(t, k)\<close> the call returns \<open>None\<close>; it does not raise.
\<close>

definition xcom_push :: "task_instance \<Rightarrow> string \<Rightarrow> 'v pyval \<Rightarrow> 'v world \<Rightarrow> 'v world" where
  "xcom_push ti key v w =
     w\<lparr>xcom := (xcom w)((ti_task_id ti, key) \<mapsto> v),
       events := events w @ [Push (ti_task_id ti) key v]\<rparr>"

definition xcom_pull :: "string \<Rightarrow> string \<Rightarrow> 'v world \<Rightarrow> 'v pyval \<times> 'v world" where
  "xcom_pull task_ids key w =
     (case xcom w (task_ids, key) of None \<Rightarrow> PyNone | Some v \<Rightarrow> v,
      w\<lparr>events := events w @ [Pull task_ids key]\<rparr>)"

definition py_print :: "'v pyval \<Rightarrow> 'v world \<Rightarrow> 'v world" where
  "py_print v w = w\<lparr>events := events w @ [Print v]\<rparr>"

subsection \<open>The dataset library\<close>

text \<open>
  \<open>tdc.multi_pred.TrialOutcome\<close> is imported, not defined, by the module. It is a
  parameter of the model: a constructor from the dataset name, which may raise, and a
  \<open>get_split\<close> method giving a dictionary from split names to splits, which may raise.
\<close>

record ('ds, 'v) dataset_library =
  TrialOutcome :: "string \<Rightarrow> py_error + 'ds"
  get_split :: "'ds \<Rightarrow> py_error + (string \<rightharpoonup> 'v pyval)"

subsection \<open>The three callables\<close>

type_synonym 'v callable = "(string \<rightharpoonup> task_instance) \<Rightarrow> 'v world \<Rightarrow> 'v outcome"

text \<open>
  \<^verbatim>\<open>
  def extract(**kwargs):
      ti = kwargs["ti"]
      data = TrialOutcome(name = 'phase1') # 'phase2' / 'phase3'
      split = data.get_split()
      data_train = split['train']
      ti.xcom_push("order_data", data_train)
  \<close>
  Each subscript is a dictionary lookup that raises \<open>KeyError\<close> on a missing key, and an
  exception leaves the function at once, before the push. (The name \<open>extract\<close> is taken
  by a list function of HOL, hence the suffix.)
\<close>

definition extract_fn :: "('ds, 'v) dataset_library \<Rightarrow> 'v callable" where
  "extract_fn lib kwargs w =
     (case kwargs ''ti'' of
        None \<Rightarrow> Raised (KeyError ''ti'') w
      | Some ti \<Rightarrow>
          (case TrialOutcome lib ''phase1'' of
             Inl e \<Rightarrow> Raised e w
           | Inr data \<Rightarrow>
               (case get_split lib data of
                  Inl e \<Rightarrow> Raised e w
                | Inr split \<Rightarrow>
                    (case split ''train'' of
                       None \<Rightarrow> Raised (KeyError ''train'') w
                     | Some data_train \<Rightarrow>
                         Returned (xcom_push ti ''order_data'' data_train w)))))"

text \<open>
  \<^verbatim>\<open>
  def transform(**kwargs):
      ti = kwargs["ti"]
      extract_data_string = ti.xcom_pull(task_ids="extract", key="order_data")
      print(extract_data_string)
      ti.xcom_push("total_order_value", extract_data_string)
  \<close>
\<close>

definition transform :: "'v callable" where
  "transform kwargs w =
     (case kwargs ''ti'' of
        None \<Rightarrow> Raised (KeyError ''ti'') w
      | Some ti \<Rightarrow>
          (let (extract_data_string, w1) = xcom_pull ''extract'' ''order_data'' w;
               w2 = py_print extract_data_string w1
           in Returned (xcom_push ti ''total_order_value'' extract_data_string w2)))"

text \<open>
  \<^verbatim>\<open>
  def load(**kwargs):
      ti = kwargs["ti"]
      total_value_string = ti.xcom_pull(task_ids="transform", key="total_order_value")
      print(total_value_string)
  \<close>
\<close>

definition load :: "'v callable" where
  "load kwargs w =
     (case kwargs ''ti'' of
        None \<Rightarrow> Raised (KeyError ''ti'') w
      | Some ti \<Rightarrow>
          (let (total_value_string, w1) = xcom_pull ''transform'' ''total_order_value'' w
           in Returned (py_print total_value_string w1)))"

subsection \<open>The DAG, its operators and their wiring\<close>

text \<open>
  \<^verbatim>\<open>
  with DAG(
      "dag_clinical_trial",
      default_args={"retries": 2},
      description="DAG clinical trial",
      schedule=None,
      catchup=False,
      tags=["example"],
  ) as dag:
  \<close>
  \<open>default_args\<close> is a dictionary; the source's comment says what it is for: "These args
  will get passed on to each operator. You can override them on a per-task basis during
  operator initialization". No operator of the module overrides anything. An operator
  built with no \<open>retries\<close> anywhere gets the orchestrator's default of no retry. The
  documentation strings the module attaches to the DAG and to the operators (\<open>doc_md\<close>)
  play no part in what runs and are left out.
\<close>

record 'v operator =
  task_id :: string
  python_callable :: "'v callable"
  retries :: nat

record 'v DAG =
  dag_id :: string
  default_args :: "string \<rightharpoonup> nat"
  description :: string
  schedule :: "string option"
  catchup :: bool
  tags :: "string list"
  tasks :: "'v operator list"
  edges :: "(string \<times> string) list"

definition dag_default_args :: "string \<rightharpoonup> nat" where
  "dag_default_args = [''retries'' \<mapsto> 2]"

definition PythonOperator :: "string \<Rightarrow> 'v callable \<Rightarrow> 'v operator" where
  "PythonOperator tid f =
     \<lparr>task_id = tid, python_callable = f,
      retries = (case dag_default_args ''retries'' of None \<Rightarrow> 0 | Some n \<Rightarrow> n)\<rparr>"

definition extract_task :: "('ds, 'v) dataset_library \<Rightarrow> 'v operator" where
  "extract_task lib = PythonOperator ''extract'' (extract_fn lib)"

definition transform_task :: "'v operator" where
  "transform_task = PythonOperator ''transform'' transform"

definition load_task :: "'v operator" where
  "load_task = PythonOperator ''load'' load"

text \<open>
  \<open>a >> b\<close> makes \<open>b\<close> a downstream task of \<open>a\<close> and evaluates to \<open>b\<close>, so that
  \<open>extract_task >> transform_task >> load_task\<close>, read from the left, adds the edge
  from extract to transform and then the edge from transform to load.
\<close>

definition rshift ::
  "'v operator \<Rightarrow> 'v operator \<Rightarrow> (string \<times> string) list \<Rightarrow> 'v operator \<times> (string \<times> string) list"
where
  "rshift a b es = (b, es @ [(task_id a, task_id b)])"

definition main_flow :: "('ds, 'v) dataset_library \<Rightarrow> (string \<times> string) list" where
  "main_flow lib =
     (let (t, es1) = rshift (extract_task lib) transform_task [];
          (u, es2) = rshift t load_task es1
      in es2)"

definition dag :: "('ds, 'v) dataset_library \<Rightarrow> 'v DAG" where
  "dag lib =
     \<lparr>dag_id = ''dag_clinical_trial'',
      default_args = dag_default_args,
      description = ''DAG clinical trial'',
      schedule = None,
      catchup = False,
      tags = [''example''],
      tasks = [extract_task lib, transform_task, load_task],
      edges = main_flow lib\<rparr>"

definition upstream :: "'v DAG \<Rightarrow> string \<Rightarrow> string list" where
  "upstream d t = map fst (filter (\<lambda>e. snd e = t) (edges d))"

definition downstream :: "'v DAG \<Rightarrow> string \<Rightarrow> string list" where
  "downstream d t = map snd (filter (\<lambda>e. fst e = t) (edges d))"

text \<open>
  The operator runs its callable with the orchestrator's context as keyword arguments;
  the one entry the callables read is \<open>"ti"\<close>, the task instance of the running task.
  All three callables end without a \<open>return\<close>, so the operator has no return value to
  publish on their behalf.
\<close>

definition execute :: "'v operator \<Rightarrow> 'v world \<Rightarrow> 'v outcome" where
  "execute op w = python_callable op [''ti'' \<mapsto> \<lparr>ti_task_id = task_id op\<rparr>] w"

text \<open>What an execution added to the trace, and the publishes and console lines in a trace.\<close>

definition emitted :: "'v world \<Rightarrow> 'v outcome \<Rightarrow> 'v event list" where
  "emitted w r = drop (length (events w)) (events (world_of r))"

fun pushes :: "'v event list \<Rightarrow> (string \<times> string \<times> 'v pyval) list" where
  "pushes [] = []"
| "pushes (Push t k v # es) = (t, k, v) # pushes es"
| "pushes (e # es) = pushes es"

fun printed :: "'v event list \<Rightarrow> 'v pyval list" where
  "printed [] = []"
| "printed (Print v # es) = v # printed es"
| "printed (e # es) = printed es"

fun pulls :: "'v event list \<Rightarrow> (string \<times> string) list" where
  "pulls [] = []"
| "pulls (Pull t k # es) = (t, k) # pulls es"
| "pulls (e # es) = pulls es"

definition fresh_world :: "'v world" where
  "fresh_world = \<lparr>xcom = Map.empty, events = []\<rparr>"

subsection \<open>The host's handling of a run\<close>

text \<open>
  Modelled from the spec: the states of a stage and the record of a run kept by the host's
  scheduler, which is the orchestrator's and not part of the repository. The rules are
  stated over any DAG, so that the module's wiring can be checked against them. A run
  starts with every stage queued, each stage holding the retry count of its operator, and
  with an empty exchange store.
\<close>

datatype stage_state = Queued | Running | Succeeded | FailedRetrying | Failed

record 'v run =
  state_of :: "string \<Rightarrow> stage_state"
  retries_left :: "string \<Rightarrow> nat"
  run_world :: "'v world"

definition retries_of :: "'v DAG \<Rightarrow> string \<Rightarrow> nat" where
  "retries_of d t = (case find (\<lambda>op. task_id op = t) (tasks d) of None \<Rightarrow> 0 | Some op \<Rightarrow> retries op)"

definition new_run :: "'v DAG \<Rightarrow> 'v run" where
  "new_run d = \<lparr>state_of = (\<lambda>t. Queued), retries_left = retries_of d, run_world = fresh_world\<rparr>"

text \<open>
  Modelled from the spec: the host's scheduler and retry engine, which are not part of
  the repository. The specification gives the state machine of a stage (queued, then
  running, then either succeeded, or failed-retrying and running again, or failed), says
  that "no stage may execute before all its predecessors succeed", that "failure of any
  stage blocks execution of its successors", and that a failure is "retried up to 2 times
  by the host, then the stage and the run are marked failed". A stage that runs executes
  its operator on the world of the run; it succeeds when the callable returns and fails
  when the callable raises. Which ready stage moves next is left open.
\<close>

inductive host_step :: "'v DAG \<Rightarrow> 'v run \<Rightarrow> 'v run \<Rightarrow> bool" for d :: "'v DAG" where
  start:
    "op \<in> set (tasks d) \<Longrightarrow> state_of r (task_id op) = Queued \<Longrightarrow>
     \<forall>p \<in> set (upstream d (task_id op)). state_of r p = Succeeded \<Longrightarrow>
     host_step d r (r\<lparr>state_of := (state_of r)(task_id op := Running)\<rparr>)"
| succeed:
    "op \<in> set (tasks d) \<Longrightarrow> state_of r (task_id op) = Running \<Longrightarrow>
     execute op (run_world r) = Returned w' \<Longrightarrow>
     host_step d r (r\<lparr>state_of := (state_of r)(task_id op := Succeeded), run_world := w'\<rparr>)"
| fail_retry:
    "op \<in> set (tasks d) \<Longrightarrow> state_of r (task_id op) = Running \<Longrightarrow>
     execute op (run_world r) = Raised e w' \<Longrightarrow> retries_left r (task_id op) = Suc n \<Longrightarrow>
     host_step d r (r\<lparr>state_of := (state_of r)(task_id op := FailedRetrying),
                      retries_left := (retries_left r)(task_id op := n), run_world := w'\<rparr>)"
| retry:
    "op \<in> set (tasks d) \<Longrightarrow> state_of r (task_id op) = FailedRetrying \<Longrightarrow>
     host_step d r (r\<lparr>state_of := (state_of r)(task_id op := Running)\<rparr>)"
| fail:
    "op \<in> set (tasks d) \<Longrightarrow> state_of r (task_id op) = Running \<Longrightarrow>
     execute op (run_world r) = Raised e w' \<Longrightarrow> retries_left r (task_id op) = 0 \<Longrightarrow>
     host_step d r (r\<lparr>state_of := (state_of r)(task_id op := Failed), run_world := w'\<rparr>)"

inductive host_run :: "'v DAG \<Rightarrow> 'v run \<Rightarrow> bool" for d :: "'v DAG" where
  begin_run: "host_run d (new_run d)"
| next_step: "host_run d r \<Longrightarrow> host_step d r r' \<Longrightarrow> host_run d r'"

subsection \<open>Derived notions used in the statements\<close>

text \<open>What a read of the store gives: the stored value, or \<open>None\<close> when there is none.\<close>

definition pulled :: "'v world \<Rightarrow> string \<Rightarrow> string \<Rightarrow> 'v pyval" where
  "pulled w t k = (case xcom w (t, k) of None \<Rightarrow> PyNone | Some v \<Rightarrow> v)"

text \<open>
  The training split of the dataset of a given name, as the three lines
  \<open>TrialOutcome(name = ...)\<close>, \<open>get_split()\<close>, \<open>['train']\<close> obtain it, or the exception
  of the first of them that raises.
\<close>

definition train_split_of :: "('ds, 'v) dataset_library \<Rightarrow> string \<Rightarrow> py_error + 'v pyval" where
  "train_split_of lib name =
     (case TrialOutcome lib name of
        Inl e \<Rightarrow> Inl e
      | Inr data \<Rightarrow>
          (case get_split lib data of
             Inl e \<Rightarrow> Inl e
           | Inr split \<Rightarrow>
               (case split ''train'' of None \<Rightarrow> Inl (KeyError ''train'') | Some v \<Rightarrow> Inr v)))"

text \<open>The ordering invariant of a run, and the world of a run as a function of its stage states.\<close>

definition ordered :: "'v run \<Rightarrow> bool" where
  "ordered r \<longleftrightarrow>
     (state_of r ''transform'' \<noteq> Queued \<longrightarrow> state_of r ''extract'' = Succeeded) \<and>
     (state_of r ''load'' \<noteq> Queued \<longrightarrow> state_of r ''transform'' = Succeeded)"

definition after_extract :: "'v pyval \<Rightarrow> 'v world" where
  "after_extract v =
     \<lparr>xcom = [(''extract'', ''order_data'') \<mapsto> v],
      events = [Push ''extract'' ''order_data'' v]\<rparr>"

definition after_transform :: "'v pyval \<Rightarrow> 'v world" where
  "after_transform v =
     \<lparr>xcom = [(''extract'', ''order_data'') \<mapsto> v, (''transform'', ''total_order_value'') \<mapsto> v],
      events = [Push ''extract'' ''order_data'' v,
                Pull ''extract'' ''order_data'', Print v,
                Push ''transform'' ''total_order_value'' v]\<rparr>"

definition after_load :: "'v pyval \<Rightarrow> 'v world" where
  "after_load v =
     \<lparr>xcom = [(''extract'', ''order_data'') \<mapsto> v, (''transform'', ''total_order_value'') \<mapsto> v],
      events = [Push ''extract'' ''order_data'' v,
                Pull ''extract'' ''order_data'', Print v,
                Push ''transform'' ''total_order_value'' v,
                Pull ''transform'' ''total_order_value'', Print v]\<rparr>"

definition world_at :: "('ds, 'v) dataset_library \<Rightarrow> 'v run \<Rightarrow> 'v world" where
  "world_at lib r =
     (case train_split_of lib ''phase1'' of
        Inl e \<Rightarrow> fresh_world
      | Inr v \<Rightarrow>
          (if state_of r ''extract'' \<noteq> Succeeded then fresh_world
           else if state_of r ''transform'' \<noteq> Succeeded then after_extract v
           else if state_of r ''load'' \<noteq> Succeeded then after_transform v
           else after_load v))"

definition tracked :: "('ds, 'v) dataset_library \<Rightarrow> 'v run \<Rightarrow> bool" where
  "tracked lib r \<longleftrightarrow>
     ordered r \<and> run_world r = world_at lib r \<and>
     (state_of r ''extract'' = Succeeded \<longrightarrow> isl (train_split_of lib ''phase1'') = False)"

subsection \<open>Concrete libraries, worlds and runs\<close>

text \<open>
  A library that serves the three datasets the source names (\<open>'phase1'\<close>, and in its
  comment \<open>'phase2'\<close> and \<open>'phase3'\<close>); one that serves \<open>'phase1'\<close> alone; and one
  whose datasets are unavailable.
\<close>

definition sample_library :: "(nat, nat) dataset_library" where
  "sample_library =
     \<lparr>TrialOutcome = (\<lambda>name. if name = ''phase1'' then Inr 1 else if name = ''phase2'' then Inr 2
                        else if name = ''phase3'' then Inr 3 else Inl (LibraryError name)),
      get_split = (\<lambda>d. Inr [''train'' \<mapsto> PyObj (10 * d), ''valid'' \<mapsto> PyObj (10 * d + 1),
                           ''test'' \<mapsto> PyObj (10 * d + 2)])\<rparr>"

definition phase1_library :: "(nat, nat) dataset_library" where
  "phase1_library =
     \<lparr>TrialOutcome = (\<lambda>name. if name = ''phase1'' then Inr 1 else Inl (LibraryError name)),
      get_split = (\<lambda>d. Inr [''train'' \<mapsto> PyObj (10 * d), ''valid'' \<mapsto> PyObj (10 * d + 1),
                           ''test'' \<mapsto> PyObj (10 * d + 2)])\<rparr>"

definition failing_library :: "(nat, nat) dataset_library" where
  "failing_library =
     \<lparr>TrialOutcome = (\<lambda>name. Inl (LibraryError name)),
      get_split = (\<lambda>d. Inr Map.empty)\<rparr>"

definition extracted_world :: "nat world" where
  "extracted_world =
     \<lparr>xcom = [(''extract'', ''order_data'') \<mapsto> PyObj 7],
      events = [Push ''extract'' ''order_data'' (PyObj 7)]\<rparr>"

definition transformed_world :: "nat world" where
  "transformed_world =
     \<lparr>xcom = [(''extract'', ''order_data'') \<mapsto> PyObj 7,
              (''transform'', ''total_order_value'') \<mapsto> PyObj 7],
      events = [Push ''extract'' ''order_data'' (PyObj 7), Pull ''extract'' ''order_data'',
                Print (PyObj 7), Push ''transform'' ''total_order_value'' (PyObj 7)]\<rparr>"

definition other_world :: "nat world" where
  "other_world =
     \<lparr>xcom = [(''extract'', ''order_data'') \<mapsto> PyObj 8,
              (''transform'', ''total_order_value'') \<mapsto> PyObj 7,
              (''load'', ''note'') \<mapsto> PyNone],
      events = []\<rparr>"

text \<open>
  A run in which only extract has been attempted, in a given state and with a given
  number of retries left, and a run given by the states of its three stages and its world.
\<close>

definition extract_attempt :: "('ds, 'v) dataset_library \<Rightarrow> stage_state \<Rightarrow> nat \<Rightarrow> 'v run" where
  "extract_attempt lib s n =
     \<lparr>state_of = (\<lambda>t. Queued)(''extract'' := s),
      retries_left = (retries_of (dag lib))(''extract'' := n),
      run_world = fresh_world\<rparr>"

definition progress ::
  "('ds, 'v) dataset_library \<Rightarrow> stage_state \<Rightarrow> stage_state \<Rightarrow> stage_state \<Rightarrow> 'v world \<Rightarrow> 'v run"
where
  "progress lib e t l w =
     \<lparr>state_of = (\<lambda>s. if s = ''extract'' then e else if s = ''transform'' then t
                        else if s = ''load'' then l else Queued),
      retries_left = retries_of (dag lib),
      run_world = w\<rparr>"

section \<open>Properties\<close>

subsection \<open>What one execution of each operator does\<close>

lemma execute_extract:
  "execute (extract_task lib) w =
     (case train_split_of lib ''phase1'' of
        Inl e \<Rightarrow> Raised e w
      | Inr v \<Rightarrow> Returned (w\<lparr>xcom := (xcom w)((''extract'', ''order_data'') \<mapsto> v),
                            events := events w @ [Push ''extract'' ''order_data'' v]\<rparr>))"
  by (simp add: execute_def extract_task_def PythonOperator_def extract_fn_def xcom_push_def
      train_split_of_def split: sum.splits option.splits)

lemma execute_transform:
  "execute transform_task w =
     Returned (w\<lparr>xcom := (xcom w)((''transform'', ''total_order_value'') \<mapsto>
                             pulled w ''extract'' ''order_data''),
                events := events w @ [Pull ''extract'' ''order_data'',
                                      Print (pulled w ''extract'' ''order_data''),
                                      Push ''transform'' ''total_order_value''
                                        (pulled w ''extract'' ''order_data'')]\<rparr>)"
  by (simp add: execute_def transform_task_def PythonOperator_def transform_def xcom_push_def
      xcom_pull_def py_print_def pulled_def)

lemma execute_load:
  "execute load_task w =
     Returned (w\<lparr>events := events w @ [Pull ''transform'' ''total_order_value'',
                                      Print (pulled w ''transform'' ''total_order_value'')]\<rparr>)"
  by (simp add: execute_def load_task_def PythonOperator_def load_def
      xcom_pull_def py_print_def pulled_def)

text \<open>
  Claim C1. Whenever a value \<open>v\<close> stands under \<open>("extract", "order_data")\<close>, the transform
  stage returns, having read that entry, printed \<open>v\<close> and published \<open>v\<close> itself, unchanged,
  under \<open>("transform", "total_order_value")\<close>; that publish is its only one, and any
  other world with the same entry makes it publish the same.
\<close>

theorem transform_republishes_order_data:
  assumes "xcom w (''extract'', ''order_data'') = Some v"
  shows "execute transform_task w =
           Returned (w\<lparr>xcom := (xcom w)((''transform'', ''total_order_value'') \<mapsto> v),
                      events := events w @ [Pull ''extract'' ''order_data'', Print v,
                                            Push ''transform'' ''total_order_value'' v]\<rparr>)
         \<and> pushes (emitted w (execute transform_task w)) = [(''transform'', ''total_order_value'', v)]
         \<and> (xcom w2 (''extract'', ''order_data'') = Some v \<longrightarrow>
              pushes (emitted w2 (execute transform_task w2)) =
              pushes (emitted w (execute transform_task w)))"
  using assms by (simp add: execute_transform pulled_def emitted_def)

text \<open>The same at a world in which extract has published the value 7, compared with itself.\<close>

theorem transform_republishes_order_data_witness:
  "xcom extracted_world (''extract'', ''order_data'') = Some (PyObj 7)
   \<and> pushes (emitted extracted_world (execute transform_task extracted_world))
      = [(''transform'', ''total_order_value'', PyObj 7)]
   \<and> pushes (emitted transformed_world (execute transform_task transformed_world))
      = pushes (emitted extracted_world (execute transform_task extracted_world))"
proof -
  have h: "xcom extracted_world (''extract'', ''order_data'') = Some (PyObj 7)"
    by (simp add: extracted_world_def)
  have h2: "xcom transformed_world (''extract'', ''order_data'') = Some (PyObj 7)"
    by (simp add: transformed_world_def)
  from transform_republishes_order_data [OF h, of transformed_world] h h2 show ?thesis
    by blast
qed

text \<open>
  Claim C3. The extract stage reads nothing from the exchange store; it retrieves the
  phase 1 partition of the clinical-trial-outcome dataset (the library's name for it,
  which the source passes, is \<open>'phase1'\<close>), selects its training split \<open>v\<close> and publishes
  \<open>v\<close> under \<open>("extract", "order_data")\<close>; this publish is its only write to the store,
  whatever the world it starts from.
\<close>

theorem extract_publishes_phase1_train_split:
  assumes "train_split_of lib ''phase1'' = Inr v"
  shows "execute (extract_task lib) w =
           Returned (w\<lparr>xcom := (xcom w)((''extract'', ''order_data'') \<mapsto> v),
                      events := events w @ [Push ''extract'' ''order_data'' v]\<rparr>)
         \<and> pulls (emitted w (execute (extract_task lib) w)) = []
         \<and> pushes (emitted w (execute (extract_task lib) w)) = [(''extract'', ''order_data'', v)]"
  using assms by (simp add: execute_extract emitted_def)

theorem extract_publishes_phase1_train_split_witness:
  "train_split_of sample_library ''phase1'' = Inr (PyObj 10) \<and>
   pulls (emitted other_world (execute (extract_task sample_library) other_world)) = [] \<and>
   pushes (emitted other_world (execute (extract_task sample_library) other_world))
     = [(''extract'', ''order_data'', PyObj 10)]"
proof -
  have h: "train_split_of sample_library ''phase1'' = Inr (PyObj 10)"
    by (simp add: train_split_of_def sample_library_def)
  from extract_publishes_phase1_train_split [OF h, of other_world] h show ?thesis
    by blast
qed

text \<open>
  Claim C4, as stated, has a read of an unpublished key fail the reading stage. In the
  world of a run that has published nothing, both readers return.
\<close>

theorem missing_upstream_counterexample:
  "xcom (fresh_world :: nat world) (''extract'', ''order_data'') = None \<and>
   is_Returned (execute transform_task (fresh_world :: nat world)) \<and>
   xcom (fresh_world :: nat world) (''transform'', ''total_order_value'') = None \<and>
   is_Returned (execute load_task (fresh_world :: nat world))"
  by (simp add: execute_transform execute_load fresh_world_def)

text \<open>
  Claim C4, amended. If a stage reads an upstream key that has not been published, the
  read gives \<open>None\<close> and the stage completes: transform prints \<open>None\<close> and publishes it
  under \<open>("transform", "total_order_value")\<close>, load prints \<open>None\<close>. Neither stage checks
  what it has read, and neither fails.
\<close>

theorem missing_upstream_value_reads_None:
  "(xcom w (''extract'', ''order_data'') = None \<longrightarrow>
      execute transform_task w =
        Returned (w\<lparr>xcom := (xcom w)((''transform'', ''total_order_value'') \<mapsto> PyNone),
                   events := events w @ [Pull ''extract'' ''order_data'', Print PyNone,
                                         Push ''transform'' ''total_order_value'' PyNone]\<rparr>)) \<and>
   (xcom w (''transform'', ''total_order_value'') = None \<longrightarrow>
      execute load_task w =
        Returned (w\<lparr>events := events w @ [Pull ''transform'' ''total_order_value'',
                                         Print PyNone]\<rparr>))"
  by (simp add: execute_transform execute_load pulled_def)

theorem missing_upstream_value_reads_None_witness:
  "xcom (fresh_world :: nat world) (''extract'', ''order_data'') = None \<and>
   execute transform_task (fresh_world :: nat world) =
     Returned \<lparr>xcom = [(''transform'', ''total_order_value'') \<mapsto> PyNone],
               events = [Pull ''extract'' ''order_data'', Print PyNone,
                         Push ''transform'' ''total_order_value'' PyNone]\<rparr> \<and>
   xcom (fresh_world :: nat world) (''transform'', ''total_order_value'') = None \<and>
   execute load_task (fresh_world :: nat world) =
     Returned \<lparr>xcom = Map.empty,
               events = [Pull ''transform'' ''total_order_value'', Print PyNone]\<rparr>"
  using missing_upstream_value_reads_None [of "fresh_world :: nat world"]
  by (simp add: fresh_world_def)

text \<open>
  Claim C9. If nothing stands under \<open>("extract", "order_data")\<close> when transform runs,
  transform returns without raising: it reads that entry, once, and the read yields
  \<open>None\<close>; it prints \<open>None\<close> and publishes \<open>None\<close> under
  \<open>("transform", "total_order_value")\<close>; a load stage run after it returns too and prints
  \<open>None\<close>, so the missing value travels on silently. What transform prints and publishes
  is what its read yields, in this world as in any other.
\<close>

theorem transform_propagates_None:
  assumes "xcom w (''extract'', ''order_data'') = None"
  shows "fst (xcom_pull ''extract'' ''order_data'' w) = PyNone
         \<and> execute transform_task w =
             Returned (w\<lparr>xcom := (xcom w)((''transform'', ''total_order_value'') \<mapsto> PyNone),
                        events := events w @ [Pull ''extract'' ''order_data'', Print PyNone,
                                              Push ''transform'' ''total_order_value'' PyNone]\<rparr>)
         \<and> is_Returned (execute transform_task w)
         \<and> pulls (emitted w (execute transform_task w)) = [(''extract'', ''order_data'')]
         \<and> printed (emitted w (execute transform_task w)) = [PyNone]
         \<and> pushes (emitted w (execute transform_task w))
             = [(''transform'', ''total_order_value'', PyNone)]
         \<and> xcom (world_of (execute transform_task w)) (''transform'', ''total_order_value'')
             = Some PyNone
         \<and> is_Returned (execute load_task (world_of (execute transform_task w)))
         \<and> printed (emitted (world_of (execute transform_task w))
                      (execute load_task (world_of (execute transform_task w)))) = [PyNone]
         \<and> pulls (emitted w2 (execute transform_task w2)) = [(''extract'', ''order_data'')]
         \<and> printed (emitted w2 (execute transform_task w2))
             = [fst (xcom_pull ''extract'' ''order_data'' w2)]
         \<and> pushes (emitted w2 (execute transform_task w2))
             = [(''transform'', ''total_order_value'', fst (xcom_pull ''extract'' ''order_data'' w2))]"
  using assms
  by (simp add: execute_transform execute_load pulled_def emitted_def xcom_pull_def)

text \<open>
  In the empty store the read is made and gives \<open>None\<close>; in a store where extract has
  published 7 the same stage reads, prints and publishes 7.
\<close>

theorem transform_propagates_None_witness:
  "xcom (fresh_world :: nat world) (''extract'', ''order_data'') = None \<and>
   execute transform_task (fresh_world :: nat world) =
     Returned \<lparr>xcom = [(''transform'', ''total_order_value'') \<mapsto> PyNone],
               events = [Pull ''extract'' ''order_data'', Print PyNone,
                         Push ''transform'' ''total_order_value'' PyNone]\<rparr> \<and>
   pulls (emitted (fresh_world :: nat world) (execute transform_task fresh_world))
     = [(''extract'', ''order_data'')] \<and>
   printed (emitted (fresh_world :: nat world) (execute transform_task fresh_world)) = [PyNone] \<and>
   pushes (emitted (fresh_world :: nat world) (execute transform_task fresh_world))
     = [(''transform'', ''total_order_value'', PyNone)] \<and>
   pulls (emitted extracted_world (execute transform_task extracted_world))
     = [(''extract'', ''order_data'')] \<and>
   printed (emitted extracted_world (execute transform_task extracted_world)) = [PyObj 7] \<and>
   pushes (emitted extracted_world (execute transform_task extracted_world))
     = [(''transform'', ''total_order_value'', PyObj 7)]"
proof -
  have h: "xcom (fresh_world :: nat world) (''extract'', ''order_data'') = None"
    by (simp add: fresh_world_def)
  have r: "fst (xcom_pull ''extract'' ''order_data'' extracted_world) = PyObj 7"
    by (simp add: xcom_pull_def extracted_world_def)
  have f: "(fresh_world :: nat world)
             \<lparr>xcom := (xcom (fresh_world :: nat world))
                        ((''transform'', ''total_order_value'') \<mapsto> PyNone),
              events := events (fresh_world :: nat world) @
                        [Pull ''extract'' ''order_data'', Print PyNone,
                         Push ''transform'' ''total_order_value'' PyNone]\<rparr> =
           \<lparr>xcom = [(''transform'', ''total_order_value'') \<mapsto> PyNone],
            events = [Pull ''extract'' ''order_data'', Print PyNone,
                      Push ''transform'' ''total_order_value'' PyNone]\<rparr>"
    by (simp add: fresh_world_def)
  from transform_propagates_None [OF h, of extracted_world] h
  show ?thesis unfolding r f by blast
qed

text \<open>
  Claim C6. The pipeline is registered under the name \<open>dag_clinical_trial\<close>; its default
  arguments give a retry count of 2, which each of its three operators carries, none
  overriding it; it has no schedule, so it runs on manual trigger only; catch-up of missed
  past runs is off; and its tags are the single tag \<open>example\<close>.
\<close>

theorem dag_registration:
  "dag_id (dag lib) = ''dag_clinical_trial'' \<and>
   default_args (dag lib) ''retries'' = Some 2 \<and>
   map task_id (tasks (dag lib)) = [''extract'', ''transform'', ''load''] \<and>
   map retries (tasks (dag lib)) = [2, 2, 2] \<and>
   map (retries_of (dag lib)) [''extract'', ''transform'', ''load''] = [2, 2, 2] \<and>
   schedule (dag lib) = None \<and>
   catchup (dag lib) = False \<and>
   tags (dag lib) = [''example'']"
  by (simp add: dag_def dag_default_args_def extract_task_def transform_task_def load_task_def
      PythonOperator_def retries_of_def)

text \<open>
  Claim C7. Take two executions of extract, each against the library as it answers at
  that time. If the library answers the same for the name \<open>'phase1'\<close> both times (the
  same dataset, and the same splits of it), then the two executions publish the same:
  both return and publish equal splits under \<open>"order_data"\<close>, or both raise and publish
  nothing. The worlds the two executions start from do not matter.
\<close>

theorem extract_rerun_same_split:
  assumes "TrialOutcome lib1 ''phase1'' = TrialOutcome lib2 ''phase1''"
      and "\<forall>d. TrialOutcome lib1 ''phase1'' = Inr d \<longrightarrow> get_split lib1 d = get_split lib2 d"
  shows "pushes (emitted w1 (execute (extract_task lib1) w1)) =
         pushes (emitted w2 (execute (extract_task lib2) w2))
         \<and> is_Returned (execute (extract_task lib1) w1) = is_Returned (execute (extract_task lib2) w2)"
proof -
  have "train_split_of lib1 ''phase1'' = train_split_of lib2 ''phase1''"
    using assms by (auto simp: train_split_of_def split: sum.splits)
  then show ?thesis
    by (simp add: execute_extract emitted_def split: sum.splits)
qed

theorem extract_rerun_same_split_witness:
  "TrialOutcome sample_library ''phase1'' = TrialOutcome phase1_library ''phase1'' \<and>
   TrialOutcome sample_library ''phase1'' = Inr 1 \<and>
   get_split sample_library 1 = get_split phase1_library 1 \<and>
   TrialOutcome sample_library ''phase2'' \<noteq> TrialOutcome phase1_library ''phase2'' \<and>
   pushes (emitted fresh_world (execute (extract_task sample_library) fresh_world)) =
   pushes (emitted extracted_world (execute (extract_task phase1_library) extracted_world)) \<and>
   pushes (emitted fresh_world (execute (extract_task sample_library) fresh_world)) =
     [(''extract'', ''order_data'', PyObj 10)]"
proof -
  have h1: "TrialOutcome sample_library ''phase1'' = TrialOutcome phase1_library ''phase1''"
    by (simp add: sample_library_def phase1_library_def)
  have h2: "\<forall>d. TrialOutcome sample_library ''phase1'' = Inr d \<longrightarrow>
              get_split sample_library d = get_split phase1_library d"
    by (simp add: sample_library_def phase1_library_def)
  have h3: "TrialOutcome sample_library ''phase1'' = Inr 1"
    by (simp add: sample_library_def)
  have h4: "TrialOutcome sample_library ''phase2'' \<noteq> TrialOutcome phase1_library ''phase2''"
    by (simp add: sample_library_def phase1_library_def)
  have h5: "pushes (emitted fresh_world (execute (extract_task sample_library) fresh_world)) =
     [(''extract'', ''order_data'', PyObj 10)]"
    by (simp add: execute_extract train_split_of_def sample_library_def emitted_def fresh_world_def)
  from extract_rerun_same_split [OF h1 h2, of fresh_world extracted_world] h1 h2 h3 h4 h5
  show ?thesis by blast
qed

subsection \<open>The wiring of the DAG\<close>

lemma dag_edges: "edges (dag lib) = [(''extract'', ''transform''), (''transform'', ''load'')]"
  by (simp add: dag_def main_flow_def rshift_def extract_task_def transform_task_def
      load_task_def PythonOperator_def)

lemma upstream_dag:
  "upstream (dag lib) t =
     (if t = ''transform'' then [''extract''] else if t = ''load'' then [''transform''] else [])"
  by (simp add: upstream_def dag_edges)

lemma dag_acyclic: "acyclic (set (edges (dag lib)))"
  by (rule acyclicI_order [where f = "\<lambda>t. if t = ''extract'' then 3
                                          else if t = ''transform'' then 2 else (1::nat)"])
     (auto simp: dag_edges)

lemma tasks_dag:
  "extract_task lib \<in> set (tasks (dag lib))" "transform_task \<in> set (tasks (dag lib))"
  "load_task \<in> set (tasks (dag lib))"
  by (simp_all add: dag_def)

lemma task_id_simps [simp]:
  "task_id (extract_task lib) = ''extract''" "task_id transform_task = ''transform''"
  "task_id load_task = ''load''"
  by (simp_all add: extract_task_def transform_task_def load_task_def PythonOperator_def)

lemma task_cases:
  assumes "op \<in> set (tasks (dag lib))"
  obtains "op = extract_task lib" "task_id op = ''extract''"
        | "op = transform_task" "task_id op = ''transform''"
        | "op = load_task" "task_id op = ''load''"
  using assms by (auto simp: dag_def)

lemma retries_of_extract: "retries_of (dag lib) ''extract'' = 2"
  by (simp add: retries_of_def dag_def extract_task_def PythonOperator_def dag_default_args_def)

text \<open>
  Claim C8. The load stage reads the entry \<open>("transform", "total_order_value")\<close>, prints
  what it read and returns; the exchange store after it equals the store before it, it
  publishes under no key, and no stage is downstream of it in the DAG.
\<close>

theorem load_leaves_store_unchanged:
  "execute load_task w =
     Returned (w\<lparr>events := events w @ [Pull ''transform'' ''total_order_value'',
                                      Print (pulled w ''transform'' ''total_order_value'')]\<rparr>)
   \<and> xcom (world_of (execute load_task w)) = xcom w
   \<and> pushes (emitted w (execute load_task w)) = []
   \<and> pulls (emitted w (execute load_task w)) = [(''transform'', ''total_order_value'')]
   \<and> printed (emitted w (execute load_task w)) = [pulled w ''transform'' ''total_order_value'']
   \<and> downstream (dag lib) ''load'' = []"
  by (simp add: execute_load emitted_def downstream_def dag_edges)

text \<open>
  Claim C10. What the load stage prints is a function of the entry
  \<open>("transform", "total_order_value")\<close> alone: from any two worlds that agree on that
  entry it prints the same, whatever else the worlds hold.
\<close>

theorem load_output_depends_on_total_order_value_only:
  assumes "xcom w1 (''transform'', ''total_order_value'') =
           xcom w2 (''transform'', ''total_order_value'')"
  shows "printed (emitted w1 (execute load_task w1)) = printed (emitted w2 (execute load_task w2))"
  using assms by (simp add: execute_load emitted_def pulled_def)

text \<open>Two worlds that agree on that entry and differ on the entry of extract and on the trace.\<close>

theorem load_output_depends_on_total_order_value_only_witness:
  "xcom transformed_world (''transform'', ''total_order_value'') =
   xcom other_world (''transform'', ''total_order_value'')
   \<and> xcom transformed_world (''extract'', ''order_data'') \<noteq> xcom other_world (''extract'', ''order_data'')
   \<and> printed (emitted transformed_world (execute load_task transformed_world)) =
     printed (emitted other_world (execute load_task other_world))
   \<and> printed (emitted other_world (execute load_task other_world)) = [PyObj 7]"
proof -
  have h: "xcom transformed_world (''transform'', ''total_order_value'') =
           xcom other_world (''transform'', ''total_order_value'')"
    by (simp add: transformed_world_def other_world_def)
  have d: "xcom transformed_world (''extract'', ''order_data'') \<noteq>
           xcom other_world (''extract'', ''order_data'')"
    by (simp add: transformed_world_def other_world_def)
  have p: "printed (emitted other_world (execute load_task other_world)) = [PyObj 7]"
    by (simp add: execute_load emitted_def pulled_def other_world_def)
  from load_output_depends_on_total_order_value_only [OF h] h d p show ?thesis by blast
qed

subsection \<open>Runs of the pipeline under the host's rules\<close>

lemma ordered_step:
  assumes "host_step (dag lib) r r'" and "ordered r"
  shows "ordered r'"
  using assms
proof (cases rule: host_step.cases)
  case (start op)
  from start(2) show ?thesis using start(1,3,4) assms(2)
    by (cases rule: task_cases) (auto simp: ordered_def upstream_dag)
next
  case (succeed op w')
  from succeed(2) show ?thesis using succeed(1,3) assms(2)
    by (cases rule: task_cases) (auto simp: ordered_def)
next
  case (fail_retry op e w' n)
  from fail_retry(2) show ?thesis using fail_retry(1,3) assms(2)
    by (cases rule: task_cases) (auto simp: ordered_def)
next
  case (retry op)
  from retry(2) show ?thesis using retry(1,3) assms(2)
    by (cases rule: task_cases) (auto simp: ordered_def)
next
  case (fail op e w')
  from fail(2) show ?thesis using fail(1,3) assms(2)
    by (cases rule: task_cases) (auto simp: ordered_def)
qed

lemma ordered_run: "host_run (dag lib) r \<Longrightarrow> ordered r"
proof (induction rule: host_run.induct)
  case begin_run
  show ?case by (simp add: ordered_def new_run_def)
next
  case (next_step r r')
  then show ?case by (blast intro: ordered_step)
qed

lemmas world_defs = world_at_def after_extract_def after_transform_def after_load_def

lemma tracked_step:
  assumes "host_step (dag lib) r r'" and "tracked lib r"
  shows "tracked lib r'"
  using assms
proof (cases rule: host_step.cases)
  case (start op)
  from start(2) show ?thesis using start(1,3,4) assms(2)
    by (cases rule: task_cases)
       (auto simp: tracked_def ordered_def upstream_dag world_defs split: sum.splits)
next
  case (succeed op w')
  from succeed(2) show ?thesis using succeed(1,3,4) assms(2)
    by (cases rule: task_cases)
       (auto simp: tracked_def ordered_def world_defs execute_extract execute_transform
          execute_load fresh_world_def pulled_def split: sum.splits if_splits)
next
  case (fail_retry op e w' n)
  from fail_retry(2) show ?thesis using fail_retry(1,3,4) assms(2)
    by (cases rule: task_cases)
       (auto simp: tracked_def ordered_def world_defs execute_extract execute_transform
          execute_load split: sum.splits if_splits)
next
  case (retry op)
  from retry(2) show ?thesis using retry(1,3) assms(2)
    by (cases rule: task_cases) (auto simp: tracked_def ordered_def world_defs split: sum.splits)
next
  case (fail op e w')
  from fail(2) show ?thesis using fail(1,3,4) assms(2)
    by (cases rule: task_cases)
       (auto simp: tracked_def ordered_def world_defs execute_extract execute_transform
          execute_load split: sum.splits if_splits)
qed

lemma tracked_run: "host_run (dag lib) r \<Longrightarrow> tracked lib r"
proof (induction rule: host_run.induct)
  case begin_run
  show ?case by (simp add: tracked_def ordered_def new_run_def world_at_def split: sum.splits)
next
  case (next_step r r')
  then show ?case by (blast intro: tracked_step)
qed

text \<open>A run in which every attempt of extract raises: three attempts, then the stage has failed.\<close>

lemma failed_run_reachable:
  "host_run (dag failing_library) (extract_attempt failing_library Failed 0)"
proof -
  let ?d = "dag failing_library"
  let ?a = "extract_attempt failing_library"
  have ex: "\<And>w. execute (extract_task failing_library) w = Raised (LibraryError ''phase1'') w"
    by (simp add: execute_extract train_split_of_def failing_library_def)
  have "new_run ?d = ?a Queued 2"
    by (simp add: new_run_def extract_attempt_def fun_eq_iff retries_of_extract)
  then have r0: "host_run ?d (?a Queued 2)"
    using host_run.begin_run [of ?d] by simp
  have "host_step ?d (?a Queued 2) (?a Running 2)"
    using host_step.start [OF tasks_dag(1) [of failing_library], where r = "?a Queued 2"]
    by (simp add: extract_attempt_def upstream_dag)
  with r0 have r1: "host_run ?d (?a Running 2)" by (rule host_run.next_step)
  have "host_step ?d (?a Running 2) (?a FailedRetrying 1)"
    using host_step.fail_retry [OF tasks_dag(1) [of failing_library],
        where r = "?a Running 2" and w' = fresh_world and n = 1]
    by (simp add: extract_attempt_def ex)
  with r1 have r2: "host_run ?d (?a FailedRetrying 1)" by (rule host_run.next_step)
  have "host_step ?d (?a FailedRetrying 1) (?a Running 1)"
    using host_step.retry [OF tasks_dag(1) [of failing_library], where r = "?a FailedRetrying 1"]
    by (simp add: extract_attempt_def)
  with r2 have r3: "host_run ?d (?a Running 1)" by (rule host_run.next_step)
  have "host_step ?d (?a Running 1) (?a FailedRetrying 0)"
    using host_step.fail_retry [OF tasks_dag(1) [of failing_library],
        where r = "?a Running 1" and w' = fresh_world and n = 0]
    by (simp add: extract_attempt_def ex)
  with r3 have r4: "host_run ?d (?a FailedRetrying 0)" by (rule host_run.next_step)
  have "host_step ?d (?a FailedRetrying 0) (?a Running 0)"
    using host_step.retry [OF tasks_dag(1) [of failing_library], where r = "?a FailedRetrying 0"]
    by (simp add: extract_attempt_def)
  with r4 have r5: "host_run ?d (?a Running 0)" by (rule host_run.next_step)
  have "host_step ?d (?a Running 0) (?a Failed 0)"
    using host_step.fail [OF tasks_dag(1) [of failing_library],
        where r = "?a Running 0" and w' = fresh_world]
    by (simp add: extract_attempt_def ex)
  with r5 show ?thesis by (rule host_run.next_step)
qed

lemma progress_upd:
  "(progress lib e t l w)\<lparr>state_of := (state_of (progress lib e t l w))(''extract'' := s)\<rparr>
     = progress lib s t l w"
  "(progress lib e t l w)\<lparr>state_of := (state_of (progress lib e t l w))(''transform'' := s)\<rparr>
     = progress lib e s l w"
  "(progress lib e t l w)\<lparr>state_of := (state_of (progress lib e t l w))(''load'' := s)\<rparr>
     = progress lib e t s w"
  "(progress lib e t l w)\<lparr>state_of := (state_of (progress lib e t l w))(''extract'' := s),
                            run_world := w'\<rparr> = progress lib s t l w'"
  "(progress lib e t l w)\<lparr>state_of := (state_of (progress lib e t l w))(''transform'' := s),
                            run_world := w'\<rparr> = progress lib e s l w'"
  "(progress lib e t l w)\<lparr>state_of := (state_of (progress lib e t l w))(''load'' := s),
                            run_world := w'\<rparr> = progress lib e t s w'"
  by (simp_all add: progress_def fun_eq_iff)

text \<open>A run in which every stage succeeds at its first attempt, up to its end.\<close>

lemma successful_run_reachable:
  assumes v: "train_split_of lib ''phase1'' = Inr v"
  shows "host_run (dag lib) (progress lib Succeeded Succeeded Succeeded (after_load v))"
proof -
  let ?d = "dag lib"
  let ?p = "progress lib"
  have "new_run ?d = ?p Queued Queued Queued fresh_world"
    by (simp add: new_run_def progress_def fun_eq_iff)
  then have r0: "host_run ?d (?p Queued Queued Queued fresh_world)"
    using host_run.begin_run [of ?d] by simp
  have "host_step ?d (?p Queued Queued Queued fresh_world) (?p Running Queued Queued fresh_world)"
    using host_step.start [OF tasks_dag(1) [of lib], where r = "?p Queued Queued Queued fresh_world"]
    by (simp add: progress_upd upstream_dag) (simp add: progress_def)
  with r0 have r1: "host_run ?d (?p Running Queued Queued fresh_world)"
    by (rule host_run.next_step)
  have "host_step ?d (?p Running Queued Queued fresh_world)
          (?p Succeeded Queued Queued (after_extract v))"
    using host_step.succeed [OF tasks_dag(1) [of lib],
        where r = "?p Running Queued Queued fresh_world" and w' = "after_extract v"]
    by (simp add: progress_upd)
       (simp add: progress_def execute_extract v after_extract_def fresh_world_def)
  with r1 have r2: "host_run ?d (?p Succeeded Queued Queued (after_extract v))"
    by (rule host_run.next_step)
  have "host_step ?d (?p Succeeded Queued Queued (after_extract v))
          (?p Succeeded Running Queued (after_extract v))"
    using host_step.start [OF tasks_dag(2) [of lib],
        where r = "?p Succeeded Queued Queued (after_extract v)"]
    by (simp add: progress_upd upstream_dag) (simp add: progress_def)
  with r2 have r3: "host_run ?d (?p Succeeded Running Queued (after_extract v))"
    by (rule host_run.next_step)
  have "host_step ?d (?p Succeeded Running Queued (after_extract v))
          (?p Succeeded Succeeded Queued (after_transform v))"
    using host_step.succeed [OF tasks_dag(2) [of lib],
        where r = "?p Succeeded Running Queued (after_extract v)" and w' = "after_transform v"]
    by (simp add: progress_upd)
       (simp add: progress_def execute_transform pulled_def after_extract_def after_transform_def)
  with r3 have r4: "host_run ?d (?p Succeeded Succeeded Queued (after_transform v))"
    by (rule host_run.next_step)
  have "host_step ?d (?p Succeeded Succeeded Queued (after_transform v))
          (?p Succeeded Succeeded Running (after_transform v))"
    using host_step.start [OF tasks_dag(3) [of lib],
        where r = "?p Succeeded Succeeded Queued (after_transform v)"]
    by (simp add: progress_upd upstream_dag) (simp add: progress_def)
  with r4 have r5: "host_run ?d (?p Succeeded Succeeded Running (after_transform v))"
    by (rule host_run.next_step)
  have "host_step ?d (?p Succeeded Succeeded Running (after_transform v))
          (?p Succeeded Succeeded Succeeded (after_load v))"
    using host_step.succeed [OF tasks_dag(3) [of lib],
        where r = "?p Succeeded Succeeded Running (after_transform v)" and w' = "after_load v"]
    by (simp add: progress_upd)
       (simp add: progress_def execute_load pulled_def after_load_def after_transform_def)
  with r5 show ?thesis by (rule host_run.next_step)
qed

lemma sample_split: "train_split_of sample_library ''phase1'' = Inr (PyObj 10)"
  by (simp add: train_split_of_def sample_library_def)

text \<open>
  Claim C2. The dependency graph that \<open>extract_task >> transform_task >> load_task\<close>
  builds is the chain from extract to transform to load and nothing more: extract has no
  predecessor, transform has extract alone, load has transform alone, and the graph has
  no cycle. Under the host's rules, in every state a run can reach, a transform stage that
  has left the queue finds extract succeeded, and a load stage that has left the queue
  finds transform succeeded, and extract with it.
\<close>

theorem stages_run_in_chain_order:
  "edges (dag lib) = [(''extract'', ''transform''), (''transform'', ''load'')] \<and>
   acyclic (set (edges (dag lib))) \<and>
   upstream (dag lib) ''extract'' = [] \<and>
   upstream (dag lib) ''transform'' = [''extract''] \<and>
   upstream (dag lib) ''load'' = [''transform''] \<and>
   (host_run (dag lib) r \<longrightarrow>
      (state_of r ''transform'' \<noteq> Queued \<longrightarrow> state_of r ''extract'' = Succeeded) \<and>
      (state_of r ''load'' \<noteq> Queued \<longrightarrow>
         state_of r ''transform'' = Succeeded \<and> state_of r ''extract'' = Succeeded))"
proof -
  have graph:
    "edges (dag lib) = [(''extract'', ''transform''), (''transform'', ''load'')]"
    "acyclic (set (edges (dag lib)))"
    by (rule dag_edges, rule dag_acyclic)
  have preds:
    "upstream (dag lib) ''extract'' = []"
    "upstream (dag lib) ''transform'' = [''extract'']"
    "upstream (dag lib) ''load'' = [''transform'']"
    by (simp_all add: upstream_dag)
  have order:
    "(state_of r ''transform'' \<noteq> Queued \<longrightarrow> state_of r ''extract'' = Succeeded) \<and>
     (state_of r ''load'' \<noteq> Queued \<longrightarrow>
        state_of r ''transform'' = Succeeded \<and> state_of r ''extract'' = Succeeded)"
    if "host_run (dag lib) r"
    using ordered_run [OF that] by (auto simp: ordered_def)
  from graph preds order show ?thesis by blast
qed

text \<open>The run of the sample library in which all three stages have succeeded.\<close>

theorem stages_run_in_chain_order_witness:
  "host_run (dag sample_library)
     (progress sample_library Succeeded Succeeded Succeeded (after_load (PyObj 10))) \<and>
   state_of (progress sample_library Succeeded Succeeded Succeeded (after_load (PyObj 10)))
     ''load'' \<noteq> Queued \<and>
   state_of (progress sample_library Succeeded Succeeded Succeeded (after_load (PyObj 10)))
     ''transform'' = Succeeded \<and>
   state_of (progress sample_library Succeeded Succeeded Succeeded (after_load (PyObj 10)))
     ''extract'' = Succeeded"
proof -
  let ?r = "progress sample_library Succeeded Succeeded Succeeded (after_load (PyObj 10))"
  have run: "host_run (dag sample_library) ?r"
    by (rule successful_run_reachable [OF sample_split])
  have q: "state_of ?r ''load'' \<noteq> Queued" "state_of ?r ''transform'' \<noteq> Queued"
    by (simp_all add: progress_def)
  from stages_run_in_chain_order [of sample_library ?r] run q show ?thesis
    by blast
qed

text \<open>
  Claim C5, as stated, has extract publish exactly once under \<open>"order_data"\<close> in every
  run. When the dataset cannot be retrieved, extract raises before its push: the run in
  which its three attempts have failed is a run of the pipeline, the stage is failed, and
  neither that run nor an execution of the stage has published anything.
\<close>

theorem failed_extract_publishes_nothing_counterexample:
  "host_run (dag failing_library) (extract_attempt failing_library Failed 0) \<and>
   state_of (extract_attempt failing_library Failed 0) ''extract'' = Failed \<and>
   pushes (events (run_world (extract_attempt failing_library Failed 0))) = [] \<and>
   execute (extract_task failing_library) fresh_world = Raised (LibraryError ''phase1'') fresh_world \<and>
   pushes (emitted fresh_world (execute (extract_task failing_library) fresh_world)) = []"
  using failed_run_reachable
  by (simp add: extract_attempt_def fresh_world_def execute_extract train_split_of_def
      failing_library_def emitted_def)

text \<open>
  Claim C5, amended. An execution of extract publishes exactly once, under
  \<open>("extract", "order_data")\<close>, when it returns, and not at all when it raises; an
  execution of transform publishes exactly once, under \<open>("transform", "total_order_value")\<close>;
  load publishes nothing. In every state a run can reach, the publishes made so far are
  one under \<open>("extract", "order_data")\<close> if extract has succeeded and one under
  \<open>("transform", "total_order_value")\<close> if transform has succeeded, and no others: no key
  is written twice within a run.
\<close>

theorem each_key_written_at_most_once:
  "pushes (emitted w (execute (extract_task lib) w)) =
     (case train_split_of lib ''phase1'' of
        Inl e \<Rightarrow> []
      | Inr v \<Rightarrow> [(''extract'', ''order_data'', v)]) \<and>
   pushes (emitted w (execute transform_task w)) =
     [(''transform'', ''total_order_value'', pulled w ''extract'' ''order_data'')] \<and>
   pushes (emitted w (execute load_task w)) = [] \<and>
   (host_run (dag lib) r \<longrightarrow>
      pushes (events (run_world r)) =
        (case train_split_of lib ''phase1'' of
           Inl e \<Rightarrow> []
         | Inr v \<Rightarrow>
             (if state_of r ''extract'' = Succeeded
              then [(''extract'', ''order_data'', v)] else []) @
             (if state_of r ''transform'' = Succeeded
              then [(''transform'', ''total_order_value'', v)] else [])))"
proof -
  have stage:
    "pushes (emitted w (execute (extract_task lib) w)) =
       (case train_split_of lib ''phase1'' of
          Inl e \<Rightarrow> []
        | Inr v \<Rightarrow> [(''extract'', ''order_data'', v)])"
    "pushes (emitted w (execute transform_task w)) =
       [(''transform'', ''total_order_value'', pulled w ''extract'' ''order_data'')]"
    "pushes (emitted w (execute load_task w)) = []"
    by (simp_all add: execute_extract execute_transform execute_load emitted_def split: sum.splits)
  have run:
    "pushes (events (run_world r)) =
        (case train_split_of lib ''phase1'' of
           Inl e \<Rightarrow> []
         | Inr v \<Rightarrow>
             (if state_of r ''extract'' = Succeeded
              then [(''extract'', ''order_data'', v)] else []) @
             (if state_of r ''transform'' = Succeeded
              then [(''transform'', ''total_order_value'', v)] else []))"
    if "host_run (dag lib) r"
    using tracked_run [OF that]
    by (auto simp: tracked_def ordered_def world_defs fresh_world_def split: sum.splits)
  from stage run show ?thesis by blast
qed

text \<open>The finished run of the sample library: one publish under each of the two keys.\<close>

theorem each_key_written_at_most_once_witness:
  "host_run (dag sample_library)
     (progress sample_library Succeeded Succeeded Succeeded (after_load (PyObj 10))) \<and>
   pushes (events (run_world
     (progress sample_library Succeeded Succeeded Succeeded (after_load (PyObj 10))))) =
     [(''extract'', ''order_data'', PyObj 10), (''transform'', ''total_order_value'', PyObj 10)]"
proof -
  let ?r = "progress sample_library Succeeded Succeeded Succeeded (after_load (PyObj 10))"
  have run: "host_run (dag sample_library) ?r"
    by (rule successful_run_reachable [OF sample_split])
  have st: "state_of ?r ''extract'' = Succeeded" "state_of ?r ''transform'' = Succeeded"
    by (simp_all add: progress_def)
  from each_key_written_at_most_once [of fresh_world sample_library ?r] run
  have "pushes (events (run_world ?r)) =
        (case train_split_of sample_library ''phase1'' of
           Inl e \<Rightarrow> []
         | Inr v \<Rightarrow>
             (if state_of ?r ''extract'' = Succeeded
              then [(''extract'', ''order_data'', v)] else []) @
             (if state_of ?r ''transform'' = Succeeded
              then [(''transform'', ''total_order_value'', v)] else []))"
    by blast
  with run st show ?thesis by (simp add: sample_split)
qed

end
